theory Spec2Isabelle
  imports Main
begin

section \<open>iron-session: sealed cookie sessions (src/src/index.ts)\<close>

text \<open>
  The TypeScript module holds two classes, \<open>IronStore\<close> (the key/value bag with its
  seal and unseal operations) and \<open>IronSession\<close> (one store bound to a request and a
  response), and six module-level functions. The packages \<open>@hapi/iron\<close> and
  \<open>cookie\<close> and Node's \<open>process.env\<close> are imported, not defined here: they are
  the fields of the record \<open>externals\<close>, and every function that calls one of them takes
  that record as its first argument.

  Numbers are modelled as \<open>int\<close> (seconds and lengths are integer valued, and every
  product below stays exact in a double). A string is a list of code units, so
  \<open>length\<close> is the source's \<open>.length\<close>. A thrown value is \<open>Inl\<close> of a
  \<open>js_error\<close>; a method that mutates \<open>this\<close> returns the new object next to its
  result, also when it throws.
\<close>

subsection \<open>Constants\<close>

definition TIMESTAMP_SKEW_SEC :: int where
  "TIMESTAMP_SKEW_SEC = 60"

definition MAX_TTL :: int where
  "MAX_TTL = 2147483647"

definition DEFAULT_TTL :: int where
  "DEFAULT_TTL = 30 * 24 * 60 * 60"

definition MAX_COOKIE_SIZE :: nat where
  "MAX_COOKIE_SIZE = 4096"

subsection \<open>Values, errors and options\<close>

text \<open>
  What \<open>throw\<close> throws. Iron raises errors that carry a message; a thrown value without
  a \<open>message\<close> property has \<open>message = None\<close>.
\<close>

datatype js_error = JsError (message: "string option")

text \<open>
  An object with string keys, as a list of its own properties. The session bag \<open>P\<close>
  is such an object; \<open>'v\<close> is the type of the values stored in it.
\<close>

type_synonym 'v js_object = "(string \<times> 'v) list"

text \<open>\<open>IronDenormalizedPassword = string | { id: string; secret: string }[]\<close>\<close>

record IronSealPassword =
  pw_id :: string
  secret :: string

datatype IronDenormalizedPassword =
  PwString string
  | PwList "IronSealPassword list"

text \<open>
  \<open>Iron.password.Hash\<close>: an object from password id to secret, read by the primitive
  with \<open>password[id]\<close>.
\<close>

type_synonym IronUnsealPassword = "string \<rightharpoonup> string"

text \<open>
  \<open>Iron.SealOptions\<close>. Only \<open>ttl\<close> (milliseconds) is set by this module; the other
  fields are \<open>Iron.defaults\<close>, copied unchanged, and stay inside the primitive.
\<close>

record SealOptions =
  ttl :: int

datatype SameSite = SameSiteTrue | SameSiteFalse | Lax | Strict | SameSiteNone

text \<open>
  \<open>cookie.CookieSerializeOptions\<close>; an absent property is \<open>None\<close>. The property
  \<open>encode\<close> (a function) is not modelled.
\<close>

record CookieSerializeOptions =
  domain :: "string option"
  expires :: "int option"
  httpOnly :: "bool option"
  maxAge :: "int option"
  path :: "string option"
  sameSite :: "SameSite option"
  secure :: "bool option"

record IronSessionOptions =
  opt_cookieName :: "string option"
  opt_cookieOptions :: "CookieSerializeOptions option"
  opt_password :: "IronDenormalizedPassword option"
  opt_ttl :: "int option"

text \<open>The three variables of \<open>process.env\<close> that the module reads.\<close>

record process_env =
  NODE_ENV :: "string option"
  IRON_SESSION_COOKIE_NAME :: "string option"
  IRON_SESSION_PASSWORD :: "string option"

text \<open>
  The imported collaborators: \<open>Iron.seal\<close>, \<open>Iron.unseal\<close>, \<open>cookie.serialize\<close>,
  \<open>cookie.parse\<close> and \<open>process.env\<close>. Each is a function of its arguments: one
  instant of the clock is fixed, and Iron's random salts are not modelled. The payload
  that \<open>Iron.unseal\<close> returns is cast to \<open>P\<close> by the module, so it is an object here.
\<close>

record 'v externals =
  Iron_seal :: "'v js_object \<Rightarrow> IronSealPassword \<Rightarrow> SealOptions \<Rightarrow> js_error + string"
  Iron_unseal :: "string \<Rightarrow> IronUnsealPassword \<Rightarrow> SealOptions \<Rightarrow> js_error + 'v js_object"
  cookie_serialize :: "string \<Rightarrow> string \<Rightarrow> CookieSerializeOptions \<Rightarrow> js_error + string"
  cookie_parse :: "string \<Rightarrow> (string \<rightharpoonup> string)"
  env :: process_env

subsection \<open>IronStore\<close>

record 'v IronStore =
  unsealed :: "'v js_object"
  sealPassword :: IronSealPassword
  unsealPassword :: IronUnsealPassword
  sealOptions :: SealOptions

definition empty_password_error :: js_error where
  "empty_password_error = JsError (Some ''Empty IronStore argument: `password`'')"

text \<open>
  \<open>denormalized.length\<close>, of a string or of an array. Both normalizations test it
  before they look at the type; \<open>denormalized[0]\<close> is read only from a non-empty
  array, so the last branch of \<open>normalizeSealPassword\<close> is never taken.
\<close>

fun password_length :: "IronDenormalizedPassword \<Rightarrow> nat" where
  "password_length (PwString s) = length s"
| "password_length (PwList es) = length es"

definition normalizeSealPassword :: "IronDenormalizedPassword \<Rightarrow> js_error + IronSealPassword" where
  "normalizeSealPassword denormalized =
     (if password_length denormalized = 0 then Inl empty_password_error
      else (case denormalized of
              PwString s \<Rightarrow> Inr \<lparr>pw_id = ''1'', secret = s\<rparr>
            | PwList es \<Rightarrow>
                (case es of
                   e # _ \<Rightarrow> Inr e
                 | [] \<Rightarrow> Inl empty_password_error)))"

text \<open>
  \<open>normalized[id] = secret\<close> on an ordinary object. The assignment creates or
  overwrites the own property \<open>id\<close>, except for the name \<open>__proto__\<close>: that one is the
  accessor inherited from \<open>Object.prototype\<close>, whose setter ignores a string, so no own
  property is created.
\<close>

definition js_assign :: "(string \<rightharpoonup> string) \<Rightarrow> string \<Rightarrow> string \<Rightarrow> (string \<rightharpoonup> string)" where
  "js_assign obj k v = (if k = ''__proto__'' then obj else obj(k \<mapsto> v))"

text \<open>The \<open>for (const { id, secret } of denormalized)\<close> loop.\<close>

fun normalize_loop :: "IronSealPassword list \<Rightarrow> IronUnsealPassword \<Rightarrow> IronUnsealPassword" where
  "normalize_loop [] normalized = normalized"
| "normalize_loop (e # es) normalized =
     normalize_loop es (js_assign normalized (pw_id e) (secret e))"

text \<open>
  The object literal \<open>{ 1: denormalized }\<close> has the own property named by the string
  \<open>"1"\<close>: a numeric property name in a literal is its decimal string.
\<close>

definition normalizeUnsealPassword :: "IronDenormalizedPassword \<Rightarrow> js_error + IronUnsealPassword" where
  "normalizeUnsealPassword denormalized =
     (if password_length denormalized = 0 then Inl empty_password_error
      else (case denormalized of
              PwString s \<Rightarrow> Inr [''1'' \<mapsto> s]
            | PwList es \<Rightarrow> Inr (normalize_loop es Map.empty)))"

text \<open>
  The constructor. The two normalizations run first and may throw; the TTL in seconds is
  multiplied by 1000 for Iron's options; the bag starts as \<open>{}\<close>.
\<close>

definition new_IronStore :: "IronDenormalizedPassword \<Rightarrow> int \<Rightarrow> js_error + 'v IronStore" where
  "new_IronStore password t =
     (case normalizeSealPassword password of
        Inl e \<Rightarrow> Inl e
      | Inr sp \<Rightarrow>
          (case normalizeUnsealPassword password of
             Inl e \<Rightarrow> Inl e
           | Inr up \<Rightarrow>
               Inr \<lparr>unsealed = [], sealPassword = sp, unsealPassword = up,
                    sealOptions = \<lparr>ttl = t * 1000\<rparr>\<rparr>))"

text \<open>
  Reading a property, \<open>obj[key]\<close>. The objects of this module are ordinary objects:
  the bag is \<open>{}\<close> (constructor, \<open>clear\<close>) or the payload that Iron parses from
  JSON, and the unseal password is an object literal or \<open>{}\<close> filled by the loop. Each
  has \<open>Object.prototype\<close> as its prototype, so a read finds the object's own property
  when there is one, the member of \<open>Object.prototype\<close> when the key is the name of
  one, and \<open>undefined\<close> otherwise.
\<close>

definition Object_prototype_names :: "string list" where
  "Object_prototype_names =
     [''constructor'', ''__defineGetter__'', ''__defineSetter__'', ''hasOwnProperty'',
      ''__lookupGetter__'', ''__lookupSetter__'', ''isPrototypeOf'',
      ''propertyIsEnumerable'', ''toString'', ''valueOf'', ''__proto__'',
      ''toLocaleString'']"

datatype 'a js_property = Undefined | Own 'a | Inherited string

definition property_of :: "'a option \<Rightarrow> string \<Rightarrow> 'a js_property" where
  "property_of own key =
     (case own of
        Some v \<Rightarrow> Own v
      | None \<Rightarrow> if key \<in> set Object_prototype_names then Inherited key else Undefined)"


definition IronStore_clear :: "'v IronStore \<Rightarrow> 'v IronStore" where
  "IronStore_clear st = st\<lparr>unsealed := []\<rparr>"

definition IronStore_seal :: "'v externals \<Rightarrow> 'v IronStore \<Rightarrow> js_error + string" where
  "IronStore_seal ext st = Iron_seal ext (unsealed st) (sealPassword st) (sealOptions st)"

text \<open>\<open>String.prototype.startsWith\<close>\<close>

definition startsWith :: "string \<Rightarrow> string \<Rightarrow> bool" where
  "startsWith s p = (take (length p) s = p)"

text \<open>
  The \<open>catch\<close> block of \<open>unseal\<close> reads \<open>err.message\<close>. When the thrown value has no
  message, the two comparisons with \<open>!==\<close> hold and \<open>err.message.startsWith\<close> throws
  a TypeError out of the block.
\<close>

definition startsWith_type_error :: js_error where
  "startsWith_type_error =
     JsError (Some ''Cannot read properties of undefined (reading startsWith)'')"

definition IronStore_unseal ::
  "'v externals \<Rightarrow> 'v IronStore \<Rightarrow> string \<Rightarrow> (js_error + bool) \<times> 'v IronStore" where
  "IronStore_unseal ext st sealed =
     (case Iron_unseal ext sealed (unsealPassword st) (sealOptions st) of
        Inr u \<Rightarrow> (Inr True, st\<lparr>unsealed := u\<rparr>)
      | Inl err \<Rightarrow>
          (case message err of
             None \<Rightarrow> (Inl startsWith_type_error, st)
           | Some m \<Rightarrow>
               (if m \<noteq> ''Expired seal'' \<and> m \<noteq> ''Bad hmac value''
                   \<and> \<not> startsWith m ''Cannot find password: ''
                then (Inl err, st)
                else (Inr False, st))))"

subsection \<open>Request and response\<close>

text \<open>
  Of the request, the module reads \<open>req.cookies\<close> (set by a framework, or undefined)
  and \<open>req.headers['cookie']\<close>. Of the response, it calls \<open>getHeader\<close> and
  \<open>setHeader\<close>; a header value is a number, a string or an array of strings.
\<close>

record Request =
  cookies :: "(string \<rightharpoonup> string) option"
  header_cookie :: "string option"

datatype header_value = HNumber int | HString string | HArray "string list"

record Response =
  headers :: "string \<rightharpoonup> header_value"

definition getHeader :: "Response \<Rightarrow> string \<Rightarrow> header_value option" where
  "getHeader r name = headers r name"

definition setHeader :: "Response \<Rightarrow> string \<Rightarrow> header_value \<Rightarrow> Response" where
  "setHeader r name v = r\<lparr>headers := (headers r)(name \<mapsto> v)\<rparr>"

text \<open>\<open>String(n)\<close> for an integer.\<close>

fun string_of_nat :: "nat \<Rightarrow> string" where
  "string_of_nat n =
     (if n < 10 then [''0123456789'' ! n]
      else string_of_nat (n div 10) @ [''0123456789'' ! (n mod 10)])"

definition js_String :: "int \<Rightarrow> string" where
  "js_String n = (if n < 0 then ''-'' @ string_of_nat (nat (- n)) else string_of_nat (nat n))"

definition getRequestCookie :: "'v externals \<Rightarrow> Request \<Rightarrow> string \<Rightarrow> string option" where
  "getRequestCookie ext rq name =
     (case cookies rq of
        Some parsed \<Rightarrow> parsed name
      | None \<Rightarrow>
          cookie_parse ext (case header_cookie rq of
                              None \<Rightarrow> []
                            | Some h \<Rightarrow> if h = [] then [] else h) name)"

text \<open>
  \<open>[res.getHeader('set-cookie') || []].flat().map(String)\<close>: a falsy header value
  (undefined, the empty string, the number 0) gives no element, an array gives its
  elements, any other value gives itself as a string.
\<close>

definition existingSetCookies :: "Response \<Rightarrow> string list" where
  "existingSetCookies r =
     (case getHeader r ''set-cookie'' of
        None \<Rightarrow> []
      | Some (HNumber n) \<Rightarrow> if n = 0 then [] else [js_String n]
      | Some (HString s) \<Rightarrow> if s = [] then [] else [s]
      | Some (HArray xs) \<Rightarrow> xs)"

definition setResponseCookie :: "Response \<Rightarrow> string \<Rightarrow> Response" where
  "setResponseCookie r serializedCookie =
     setHeader r ''set-cookie'' (HArray (existingSetCookies r @ [serializedCookie]))"

subsection \<open>Configuration\<close>

definition getCookieName :: "'v externals \<Rightarrow> IronSessionOptions option \<Rightarrow> js_error + string" where
  "getCookieName ext sessionOptions =
     (case Option.bind sessionOptions opt_cookieName of
        Some n \<Rightarrow>
          if length n \<noteq> 0 then Inr n
          else (case IRON_SESSION_COOKIE_NAME (env ext) of
                  Some e \<Rightarrow> if e \<noteq> [] then Inr e
                            else Inl (JsError (Some ''Missing IronSession option: `cookieName`''))
                | None \<Rightarrow> Inl (JsError (Some ''Missing IronSession option: `cookieName`'')))
      | None \<Rightarrow>
          (case IRON_SESSION_COOKIE_NAME (env ext) of
             Some e \<Rightarrow> if e \<noteq> [] then Inr e
                       else Inl (JsError (Some ''Missing IronSession option: `cookieName`''))
           | None \<Rightarrow> Inl (JsError (Some ''Missing IronSession option: `cookieName`''))))"

definition getPassword ::
  "'v externals \<Rightarrow> IronSessionOptions option \<Rightarrow> js_error + IronDenormalizedPassword" where
  "getPassword ext sessionOptions =
     (case Option.bind sessionOptions opt_password of
        Some p \<Rightarrow>
          if password_length p \<noteq> 0 then Inr p
          else (case IRON_SESSION_PASSWORD (env ext) of
                  Some e \<Rightarrow> if e \<noteq> [] then Inr (PwString e)
                            else Inl (JsError (Some ''Missing IronSession option: `password`''))
                | None \<Rightarrow> Inl (JsError (Some ''Missing IronSession option: `password`'')))
      | None \<Rightarrow>
          (case IRON_SESSION_PASSWORD (env ext) of
             Some e \<Rightarrow> if e \<noteq> [] then Inr (PwString e)
                       else Inl (JsError (Some ''Missing IronSession option: `password`''))
           | None \<Rightarrow> Inl (JsError (Some ''Missing IronSession option: `password`''))))"

text \<open>
  \<open>if (sessionOptions?.cookieOptions?.maxAge)\<close> holds for a number that is present and
  not 0. \<open>sessionOptions?.ttl ?? DEFAULT_TTL\<close> takes the default only for an absent
  TTL.
\<close>

definition getCookieMaxAge :: "IronSessionOptions option \<Rightarrow> int" where
  "getCookieMaxAge sessionOptions =
     (case Option.bind (Option.bind sessionOptions opt_cookieOptions) maxAge of
        Some m \<Rightarrow>
          if m \<noteq> 0 then min m MAX_TTL
          else min ((case Option.bind sessionOptions opt_ttl of
                       Some t \<Rightarrow> t | None \<Rightarrow> DEFAULT_TTL) - TIMESTAMP_SKEW_SEC) MAX_TTL
      | None \<Rightarrow>
          min ((case Option.bind sessionOptions opt_ttl of
                  Some t \<Rightarrow> t | None \<Rightarrow> DEFAULT_TTL) - TIMESTAMP_SKEW_SEC) MAX_TTL)"

definition DEFAULT_COOKIE_OPTIONS :: "'v externals \<Rightarrow> CookieSerializeOptions" where
  "DEFAULT_COOKIE_OPTIONS ext =
     \<lparr>domain = None, expires = None, httpOnly = Some True, maxAge = None,
      path = Some ''/'', sameSite = Some Lax,
      secure = Some (NODE_ENV (env ext) = Some ''production'')\<rparr>"

text \<open>One property of an object spread \<open>{ ...a, ...b }\<close>: that of \<open>b\<close> when \<open>b\<close> has it.\<close>

definition spread :: "'a option \<Rightarrow> 'a option \<Rightarrow> 'a option" where
  "spread a b = (case b of Some v \<Rightarrow> Some v | None \<Rightarrow> a)"

definition getCookieSerializeOptions ::
  "'v externals \<Rightarrow> IronSessionOptions option \<Rightarrow> CookieSerializeOptions" where
  "getCookieSerializeOptions ext sessionOptions =
     (let d = DEFAULT_COOKIE_OPTIONS ext;
          u = (case Option.bind sessionOptions opt_cookieOptions of
                 Some c \<Rightarrow> c
               | None \<Rightarrow> \<lparr>domain = None, expires = None, httpOnly = None, maxAge = None,
                          path = None, sameSite = None, secure = None\<rparr>)
      in \<lparr>domain = spread (domain d) (domain u),
          expires = spread (expires d) (expires u),
          httpOnly = spread (httpOnly d) (httpOnly u),
          maxAge = Some (getCookieMaxAge sessionOptions),
          path = spread (path d) (path u),
          sameSite = spread (sameSite d) (sameSite u),
          secure = spread (secure d) (secure u)\<rparr>)"

subsection \<open>IronSession\<close>

record 'v IronSession =
  store :: "'v IronStore"
  req :: Request
  res :: Response
  cookieName :: string
  cookieOptions :: CookieSerializeOptions

definition new_IronSession ::
  "'v externals \<Rightarrow> Request \<Rightarrow> Response \<Rightarrow> IronSessionOptions option
     \<Rightarrow> js_error + 'v IronSession" where
  "new_IronSession ext rq rs sessionOptions =
     (case getCookieName ext sessionOptions of
        Inl e \<Rightarrow> Inl e
      | Inr name \<Rightarrow>
          (case getPassword ext sessionOptions of
             Inl e \<Rightarrow> Inl e
           | Inr password \<Rightarrow>
               (case new_IronStore password
                       (case Option.bind sessionOptions opt_ttl of
                          Some t \<Rightarrow> t | None \<Rightarrow> DEFAULT_TTL) of
                  Inl e \<Rightarrow> Inl e
                | Inr st \<Rightarrow>
                    Inr \<lparr>store = st, req = rq, res = rs, cookieName = name,
                         cookieOptions = getCookieSerializeOptions ext sessionOptions\<rparr>)))"

definition readCookie :: "'v externals \<Rightarrow> 'v IronSession \<Rightarrow> string option" where
  "readCookie ext s = getRequestCookie ext (req s) (cookieName s)"

definition cookie_too_big :: "nat \<Rightarrow> js_error" where
  "cookie_too_big n = JsError (Some (''IronSession cookie length is too big: '' @ string_of_nat n))"

text \<open>
  \<open>writeCookie\<close>: the options get \<open>maxAge: 0\<close> when the value is the empty string;
  \<open>cookie.serialize\<close> may throw; a serialized cookie longer than \<open>MAX_COOKIE_SIZE\<close>
  throws before the response is touched.
\<close>

definition writeCookie ::
  "'v externals \<Rightarrow> 'v IronSession \<Rightarrow> string \<Rightarrow> (js_error + unit) \<times> 'v IronSession" where
  "writeCookie ext s v =
     (let options = (if v \<noteq> [] then cookieOptions s else (cookieOptions s)\<lparr>maxAge := Some 0\<rparr>)
      in case cookie_serialize ext (cookieName s) v options of
           Inl e \<Rightarrow> (Inl e, s)
         | Inr serialized \<Rightarrow>
             if length serialized > MAX_COOKIE_SIZE
             then (Inl (cookie_too_big (length serialized)), s)
             else (Inr (), s\<lparr>res := setResponseCookie (res s) serialized\<rparr>))"

text \<open>\<open>if (sealed)\<close> holds for a string that is present and not empty.\<close>

definition restore ::
  "'v externals \<Rightarrow> 'v IronSession \<Rightarrow> (js_error + bool) \<times> 'v IronSession" where
  "restore ext s =
     (case readCookie ext s of
        Some sealed \<Rightarrow>
          if sealed \<noteq> []
          then (case IronStore_unseal ext (store s) sealed of
                  (r, st) \<Rightarrow> (r, s\<lparr>store := st\<rparr>))
          else (Inr False, s)
      | None \<Rightarrow> (Inr False, s))"

definition save :: "'v externals \<Rightarrow> 'v IronSession \<Rightarrow> (js_error + unit) \<times> 'v IronSession" where
  "save ext s =
     (case IronStore_seal ext (store s) of
        Inl e \<Rightarrow> (Inl e, s)
      | Inr sealed \<Rightarrow> writeCookie ext s sealed)"

definition destroy :: "'v externals \<Rightarrow> 'v IronSession \<Rightarrow> (js_error + unit) \<times> 'v IronSession" where
  "destroy ext s = writeCookie ext (s\<lparr>store := IronStore_clear (store s)\<rparr>) []"

definition getIronSession ::
  "'v externals \<Rightarrow> Request \<Rightarrow> Response \<Rightarrow> IronSessionOptions option
     \<Rightarrow> js_error + 'v IronSession" where
  "getIronSession ext rq rs sessionOptions =
     (case new_IronSession ext rq rs sessionOptions of
        Inl e \<Rightarrow> Inl e
      | Inr s \<Rightarrow>
          (case restore ext s of
             (Inl e, _) \<Rightarrow> Inl e
           | (Inr _, s') \<Rightarrow> Inr s'))"

subsection \<open>Reference collaborators\<close>

text \<open>
  An executable stand-in for the imported packages, on which the model runs at concrete
  inputs. The bag holds strings. A token keeps Iron's layout in miniature,
  \<open>Fe26.2*id*body*mac\<close>: the body is the bag written as \<open>key:value,\<close> entries, and
  the mac is the secret (as character codes) followed by the body, so that it checks
  exactly for the secret that sealed the body. The error messages are Iron's. Seal
  refuses an id that is not made of word characters and a secret shorter than 32
  characters, as Iron does. Unseal reads the secret with \<open>password[id]\<close> (the id
  \<open>default\<close> for an empty one), as Iron does: without a value, or with the empty
  string, it cannot find the password; a function inherited from \<open>Object.prototype\<close>
  is taken for a password that is too short, and the prototype object that
  \<open>__proto__\<close> yields for an empty one. Time is not modelled: no token expires.
  \<open>ref_serialize\<close> and \<open>ref_parse\<close> write and read the plain \<open>name=value\<close> syntax of
  cookies, without percent-encoding.
\<close>

fun split_on :: "char \<Rightarrow> string \<Rightarrow> string list" where
  "split_on c [] = [[]]"
| "split_on c (x # xs) =
     (if x = c then [] # split_on c xs
      else (case split_on c xs of
              y # ys \<Rightarrow> (x # y) # ys
            | [] \<Rightarrow> [[x]]))"

definition word_chars :: string where
  "word_chars = ''abcdefghijklmnopqrstuvwxyzABCDEFGHIJKLMNOPQRSTUVWXYZ0123456789_''"

definition ref_mac :: "string \<Rightarrow> string \<Rightarrow> string" where
  "ref_mac key body = concat (map (\<lambda>c. string_of_nat (of_char c) @ ''.'') key) @ body"

definition ref_encode :: "string js_object \<Rightarrow> string" where
  "ref_encode obj = concat (map (\<lambda>(k, v). k @ '':'' @ v @ '','') obj)"

definition ref_decode :: "string \<Rightarrow> string js_object" where
  "ref_decode body =
     map (\<lambda>p. (takeWhile (\<lambda>c. c \<noteq> CHR '':'') p, drop 1 (dropWhile (\<lambda>c. c \<noteq> CHR '':'') p)))
       (filter (\<lambda>p. p \<noteq> []) (split_on CHR '','' body))"

definition ref_plain :: "string \<Rightarrow> bool" where
  "ref_plain s = (CHR ''*'' \<notin> set s \<and> CHR '','' \<notin> set s \<and> CHR '':'' \<notin> set s)"

definition ref_seal :: "string js_object \<Rightarrow> IronSealPassword \<Rightarrow> SealOptions \<Rightarrow> js_error + string" where
  "ref_seal obj pw opts =
     (if pw_id pw = [] \<or> \<not> list_all (\<lambda>c. c \<in> set word_chars) (pw_id pw)
      then Inl (JsError (Some ''Invalid password id''))
      else if length (secret pw) < 32
      then Inl (JsError (Some ''Password string too short (min 32 characters required)''))
      else if \<not> list_all (\<lambda>(k, v). k \<noteq> [] \<and> ref_plain k \<and> ref_plain v) obj
      then Inl (JsError (Some ''Failed to stringify object''))
      else Inr (''Fe26.2*'' @ pw_id pw @ ''*'' @ ref_encode obj @ ''*''
                  @ ref_mac (secret pw) (ref_encode obj)))"

definition ref_unseal :: "string \<Rightarrow> IronUnsealPassword \<Rightarrow> SealOptions \<Rightarrow> js_error + string js_object" where
  "ref_unseal sealed password opts =
     (case split_on CHR ''*'' sealed of
        [prefix, passwordId, body, mac] \<Rightarrow>
          if prefix \<noteq> ''Fe26.2'' then Inl (JsError (Some ''Wrong mac prefix''))
          else (let name = (if passwordId = [] then ''default'' else passwordId)
                in case property_of (password name) name of
                     Undefined \<Rightarrow> Inl (JsError (Some (''Cannot find password: '' @ passwordId)))
                   | Inherited m \<Rightarrow>
                       if m = ''__proto__'' then Inl (JsError (Some ''Empty password''))
                       else Inl (JsError
                                  (Some ''Password string too short (min 32 characters required)''))
                   | Own key \<Rightarrow>
                       if key = []
                       then Inl (JsError (Some (''Cannot find password: '' @ passwordId)))
                       else if length key < 32
                       then Inl (JsError
                                  (Some ''Password string too short (min 32 characters required)''))
                       else if ref_mac key body \<noteq> mac
                       then Inl (JsError (Some ''Bad hmac value''))
                       else Inr (ref_decode body))
      | _ \<Rightarrow> Inl (JsError (Some ''Incorrect number of sealed components'')))"

definition ref_serialize :: "string \<Rightarrow> string \<Rightarrow> CookieSerializeOptions \<Rightarrow> js_error + string" where
  "ref_serialize name v opts =
     (if name = [] then Inl (JsError (Some ''argument name is invalid''))
      else Inr (name @ ''='' @ v
                @ (case maxAge opts of None \<Rightarrow> [] | Some m \<Rightarrow> ''; Max-Age='' @ js_String m)
                @ (case path opts of None \<Rightarrow> [] | Some p \<Rightarrow> ''; Path='' @ p)
                @ (if httpOnly opts = Some True then ''; HttpOnly'' else [])
                @ (if secure opts = Some True then ''; Secure'' else [])))"

definition ref_parse :: "string \<Rightarrow> (string \<rightharpoonup> string)" where
  "ref_parse str =
     map_of (rev (map (\<lambda>p. (takeWhile (\<lambda>c. c \<noteq> CHR ''='') (dropWhile (\<lambda>c. c = CHR '' '') p),
                        drop 1 (dropWhile (\<lambda>c. c \<noteq> CHR ''='') p)))
               (filter (\<lambda>p. CHR ''='' \<in> set p) (split_on CHR '';'' str))))"

definition ref_externals :: "string externals" where
  "ref_externals =
     \<lparr>Iron_seal = ref_seal, Iron_unseal = ref_unseal, cookie_serialize = ref_serialize,
      cookie_parse = ref_parse,
      env = \<lparr>NODE_ENV = None, IRON_SESSION_COOKIE_NAME = None, IRON_SESSION_PASSWORD = None\<rparr>\<rparr>"

subsection \<open>Sample states\<close>

text \<open>
  A session as the constructor builds it from the cookie name \<open>sid\<close>, a 32-character
  secret and a TTL of 100 seconds, holding the bag \<open>B\<close>.
\<close>

definition secret32 :: string where
  "secret32 = ''0123456789abcdef0123456789abcdef''"

definition sample_session :: "string js_object \<Rightarrow> Request \<Rightarrow> Response \<Rightarrow> string IronSession" where
  "sample_session B rq rs =
     \<lparr>store = \<lparr>unsealed = B,
               sealPassword = \<lparr>pw_id = ''1'', secret = secret32\<rparr>,
               unsealPassword = [''1'' \<mapsto> secret32],
               sealOptions = \<lparr>ttl = 100000\<rparr>\<rparr>,
      req = rq, res = rs, cookieName = ''sid'',
      cookieOptions = \<lparr>domain = None, expires = None, httpOnly = Some True,
                       maxAge = Some 40, path = Some ''/'', sameSite = Some Lax,
                       secure = Some False\<rparr>\<rparr>"

text \<open>
  Two tokens of the reference primitive for the bag \<open>{user: "ann"}\<close>: one sealed
  under the id \<open>1\<close> with the sample secret, one sealed with the same secret under the
  id \<open>2\<close>, which the sample session does not list.
\<close>

definition sample_token :: string where
  "sample_token =
     ''Fe26.2*1*user:ann,*48.49.50.51.52.53.54.55.56.57.97.98.99.100.101.102.48.49.50.51.52.53.54.55.56.57.97.98.99.100.101.102.user:ann,''"

definition retired_token :: string where
  "retired_token =
     ''Fe26.2*2*user:ann,*48.49.50.51.52.53.54.55.56.57.97.98.99.100.101.102.48.49.50.51.52.53.54.55.56.57.97.98.99.100.101.102.user:ann,''"


subsection \<open>Notions used in the properties\<close>

text \<open>
  The values that a header holds, as strings: none when the header is absent, the
  elements of an array, the value itself otherwise.
\<close>

definition header_values :: "header_value option \<Rightarrow> string list" where
  "header_values h =
     (case h of
        None \<Rightarrow> []
      | Some (HNumber n) \<Rightarrow> [js_String n]
      | Some (HString s) \<Rightarrow> [s]
      | Some (HArray xs) \<Rightarrow> xs)"

text \<open>
  Sealing and then unsealing: a store made from \<open>password\<close> and a TTL of \<open>t\<close>
  seconds holds the bag \<open>B\<close> and seals it; a second store made from the same password
  and TTL unseals the token. The result is the boolean that \<open>unseal\<close> returns and the
  bag of the second store afterwards.
\<close>

definition seal_then_unseal ::
  "'v externals \<Rightarrow> IronDenormalizedPassword \<Rightarrow> int \<Rightarrow> 'v js_object
     \<Rightarrow> js_error + bool \<times> 'v js_object" where
  "seal_then_unseal ext password t B =
     (case new_IronStore password t of
        Inl e \<Rightarrow> Inl e
      | Inr st \<Rightarrow>
          (case IronStore_seal ext (st\<lparr>unsealed := B\<rparr>) of
             Inl e \<Rightarrow> Inl e
           | Inr sealed \<Rightarrow>
               (case IronStore_unseal ext st sealed of
                  (Inl e, _) \<Rightarrow> Inl e
                | (Inr b, st') \<Rightarrow> Inr (b, unsealed st'))))"

text \<open>
  The password names its own sealing key: a non-empty string, or a non-empty list whose
  first id is not \<open>__proto__\<close> and in which an element that repeats the first id
  repeats the first secret.
\<close>

fun seal_key_listed :: "IronDenormalizedPassword \<Rightarrow> bool" where
  "seal_key_listed (PwString s) = (s \<noteq> [])"
| "seal_key_listed (PwList []) = False"
| "seal_key_listed (PwList (e # es)) =
     (pw_id e \<noteq> ''__proto__''
      \<and> list_all (\<lambda>x. pw_id x = pw_id e \<longrightarrow> secret x = secret e) es)"


text \<open>
  What is asked of Iron for one bag: if it seals \<open>B\<close> under \<open>sp\<close>, and the hash
  \<open>up\<close> holds the secret of \<open>sp\<close> under the id of \<open>sp\<close>, then it unseals the token
  to \<open>B\<close>.
\<close>

definition iron_roundtrip ::
  "'v externals \<Rightarrow> 'v js_object \<Rightarrow> IronSealPassword \<Rightarrow> IronUnsealPassword \<Rightarrow> SealOptions
     \<Rightarrow> bool" where
  "iron_roundtrip ext B sp up opts =
     (case Iron_seal ext B sp opts of
        Inl e \<Rightarrow> True
      | Inr sealed \<Rightarrow>
          up (pw_id sp) = Some (secret sp) \<longrightarrow> Iron_unseal ext sealed up opts = Inr B)"

section \<open>Properties\<close>

subsection \<open>Password normalization\<close>

text \<open>
  The loop of \<open>normalizeUnsealPassword\<close> leaves a key alone that no element carries,
  never stores the name \<open>__proto__\<close>, and for any other key keeps the secret of the
  last element listed under it.
\<close>

lemma normalize_loop_other:
  "k \<notin> pw_id ` set es \<Longrightarrow> normalize_loop es n k = n k"
  by (induction es arbitrary: n) (auto simp: js_assign_def)

lemma normalize_loop_proto:
  "normalize_loop es n ''__proto__'' = n ''__proto__''"
  by (induction es arbitrary: n) (auto simp: js_assign_def)

lemma find_append_case:
  "find P (xs @ ys) = (case find P xs of None \<Rightarrow> find P ys | Some x \<Rightarrow> Some x)"
  by (induction xs) auto

lemma normalize_loop_last:
  "k \<noteq> ''__proto__'' \<Longrightarrow>
   normalize_loop es n k =
     (case find (\<lambda>e. pw_id e = k) (rev es) of
        Some e \<Rightarrow> Some (secret e)
      | None \<Rightarrow> n k)"
proof (induction es arbitrary: n)
  case Nil
  then show ?case by simp
next
  case (Cons e es)
  show ?case
  proof (cases "find (\<lambda>x. pw_id x = k) (rev es)")
    case None
    then show ?thesis
      using Cons by (simp add: find_append_case js_assign_def)
  next
    case (Some x)
    then show ?thesis
      using Cons by (simp add: find_append_case)
  qed
qed

lemma normalize_loop_distinct:
  "distinct (map pw_id es) \<Longrightarrow> ''__proto__'' \<notin> pw_id ` set es \<Longrightarrow> x \<in> set es \<Longrightarrow>
   normalize_loop es n (pw_id x) = Some (secret x)"
proof (induction es arbitrary: n)
  case Nil
  then show ?case by simp
next
  case (Cons e es)
  show ?case
  proof (cases "x = e")
    case True
    have "pw_id e \<notin> pw_id ` set es" using Cons.prems(1) by auto
    then have "normalize_loop es (js_assign n (pw_id e) (secret e)) (pw_id e)
               = js_assign n (pw_id e) (secret e) (pw_id e)"
      by (rule normalize_loop_other)
    moreover have "pw_id e \<noteq> ''__proto__''" using Cons.prems(2) by auto
    ultimately show ?thesis using True by (simp add: js_assign_def)
  next
    case False
    then have "x \<in> set es" using Cons.prems(3) by simp
    then show ?thesis using Cons by simp
  qed
qed

lemma normalize_loop_dom:
  "''__proto__'' \<notin> pw_id ` set es \<Longrightarrow> dom (normalize_loop es n) = dom n \<union> pw_id ` set es"
  by (induction es arbitrary: n) (auto simp: js_assign_def)

text \<open>
  C5. Both normalizations are functions of the denormalized password alone. For a
  non-empty string \<open>s\<close> the seal form is \<open>{id: "1", secret: s}\<close> and the unseal
  form has the single entry \<open>"1"\<close> \<open>\<mapsto>\<close> \<open>s\<close>. For a non-empty list the seal form is
  its first element; the unseal form maps every id other than \<open>__proto__\<close> to the
  secret of the last element listed under that id, so when the ids are pairwise
  distinct and none is \<open>__proto__\<close> it maps every element's id to its secret and has
  no other entry. Both normalizations raise the same error on the empty string and on
  the empty list.
\<close>

theorem password_normalization:
  "(s \<noteq> [] \<longrightarrow>
      normalizeSealPassword (PwString s) = Inr \<lparr>pw_id = ''1'', secret = s\<rparr>
      \<and> normalizeUnsealPassword (PwString s) = Inr [''1'' \<mapsto> s])
   \<and> normalizeSealPassword (PwList (e # es)) = Inr e
   \<and> (\<exists>h. normalizeUnsealPassword (PwList (e # es)) = Inr h
          \<and> (\<forall>k. k \<noteq> ''__proto__'' \<longrightarrow>
                 h k = map_option secret (find (\<lambda>x. pw_id x = k) (rev (e # es))))
          \<and> (distinct (map pw_id (e # es)) \<and> ''__proto__'' \<notin> pw_id ` set (e # es) \<longrightarrow>
                 dom h = pw_id ` set (e # es)
                 \<and> (\<forall>x \<in> set (e # es). h (pw_id x) = Some (secret x))))
   \<and> normalizeSealPassword (PwString []) = Inl empty_password_error
   \<and> normalizeSealPassword (PwList []) = Inl empty_password_error
   \<and> normalizeUnsealPassword (PwString []) = Inl empty_password_error
   \<and> normalizeUnsealPassword (PwList []) = Inl empty_password_error"
proof -
  let ?h = "normalize_loop (e # es) Map.empty"
  have a: "s \<noteq> [] \<longrightarrow>
      normalizeSealPassword (PwString s) = Inr \<lparr>pw_id = ''1'', secret = s\<rparr>
      \<and> normalizeUnsealPassword (PwString s) = Inr [''1'' \<mapsto> s]"
    by (simp add: normalizeSealPassword_def normalizeUnsealPassword_def)
  have b: "normalizeSealPassword (PwList (e # es)) = Inr e"
    by (simp add: normalizeSealPassword_def)
  have c1: "normalizeUnsealPassword (PwList (e # es)) = Inr ?h"
    by (simp add: normalizeUnsealPassword_def)
  have c2: "\<forall>k. k \<noteq> ''__proto__'' \<longrightarrow>
                 ?h k = map_option secret (find (\<lambda>x. pw_id x = k) (rev (e # es)))"
  proof (intro allI impI)
    fix k :: string
    assume "k \<noteq> ''__proto__''"
    then show "?h k = map_option secret (find (\<lambda>x. pw_id x = k) (rev (e # es)))"
      using normalize_loop_last [of k "e # es" Map.empty]
      by (simp split: option.splits)
  qed
  have c3: "distinct (map pw_id (e # es)) \<and> ''__proto__'' \<notin> pw_id ` set (e # es) \<longrightarrow>
                 dom ?h = pw_id ` set (e # es)
                 \<and> (\<forall>x \<in> set (e # es). ?h (pw_id x) = Some (secret x))"
  proof (intro impI conjI ballI)
    assume h: "distinct (map pw_id (e # es)) \<and> ''__proto__'' \<notin> pw_id ` set (e # es)"
    show "dom ?h = pw_id ` set (e # es)"
      using normalize_loop_dom [of "e # es" Map.empty] h by simp
    fix x assume "x \<in> set (e # es)"
    then show "?h (pw_id x) = Some (secret x)"
      using normalize_loop_distinct [of "e # es" x Map.empty] h by blast
  qed
  have d: "normalizeSealPassword (PwString []) = Inl empty_password_error"
    "normalizeSealPassword (PwList []) = Inl empty_password_error"
    "normalizeUnsealPassword (PwString []) = Inl empty_password_error"
    "normalizeUnsealPassword (PwList []) = Inl empty_password_error"
    by (simp_all add: normalizeSealPassword_def normalizeUnsealPassword_def)
  from a b c1 c2 c3 d show ?thesis by blast
qed

theorem password_normalization_witness:
  "normalizeSealPassword (PwString ''abc'') = Inr \<lparr>pw_id = ''1'', secret = ''abc''\<rparr>
   \<and> normalizeUnsealPassword (PwString ''abc'') = Inr [''1'' \<mapsto> ''abc'']
   \<and> normalizeSealPassword
        (PwList [\<lparr>pw_id = ''2'', secret = ''new''\<rparr>, \<lparr>pw_id = ''1'', secret = ''old''\<rparr>])
       = Inr \<lparr>pw_id = ''2'', secret = ''new''\<rparr>
   \<and> (\<exists>h. normalizeUnsealPassword
              (PwList [\<lparr>pw_id = ''2'', secret = ''new''\<rparr>, \<lparr>pw_id = ''1'', secret = ''old''\<rparr>])
             = Inr h
          \<and> dom h = {''1'', ''2''} \<and> h ''2'' = Some ''new'' \<and> h ''1'' = Some ''old'')"
  using password_normalization
    [of "''abc''" "\<lparr>pw_id = ''2'', secret = ''new''\<rparr>" "[\<lparr>pw_id = ''1'', secret = ''old''\<rparr>]"]
  by auto

text \<open>
  With an id listed twice, the entry of the unseal form is the later secret: the id of
  the first element is not mapped to the first element's secret.
\<close>

theorem unseal_password_duplicate_id_counterexample:
  "normalizeUnsealPassword
     (PwList [\<lparr>pw_id = ''a'', secret = ''x''\<rparr>, \<lparr>pw_id = ''a'', secret = ''y''\<rparr>])
     = Inr [''a'' \<mapsto> ''y'']
   \<and> [''a'' \<mapsto> ''y''] (pw_id \<lparr>pw_id = ''a'', secret = ''x''\<rparr>)
       \<noteq> Some (secret \<lparr>pw_id = ''a'', secret = ''x''\<rparr>)"
  by (simp add: normalizeUnsealPassword_def js_assign_def)

subsection \<open>The TTL handed to Iron\<close>

lemma new_IronStore_sealOptions:
  "new_IronStore password t = Inr st \<Longrightarrow> sealOptions st = \<lparr>ttl = t * 1000\<rparr>"
  by (auto simp: new_IronStore_def split: sum.splits)

lemma new_IronSession_fields:
  assumes "new_IronSession ext rq rs so = Inr s"
  shows "cookieOptions s = getCookieSerializeOptions ext so"
    and "req s = rq" and "res s = rs"
    and "getCookieName ext so = Inr (cookieName s)"
    and "\<exists>password. getPassword ext so = Inr password
           \<and> new_IronStore password
                (case Option.bind so opt_ttl of Some t \<Rightarrow> t | None \<Rightarrow> DEFAULT_TTL)
               = Inr (store s)"
  using assms by (auto simp: new_IronSession_def split: sum.splits)

text \<open>
  C4. The constructor of \<open>IronStore\<close> hands Iron the configured TTL multiplied by 1000,
  whatever its size: no bound is applied to it. A session built from options takes the
  TTL of the options, or 2592000 seconds when they give none, and its store holds that
  TTL times 1000. \<open>MAX_TTL\<close> bounds the cookie's max-age only.
\<close>

theorem seal_ttl_is_ttl_times_1000:
  "(new_IronStore password t = Inr st \<longrightarrow>
      sealOptions st = \<lparr>ttl = t * 1000\<rparr>
      \<and> IronStore_seal ext st = Iron_seal ext [] (sealPassword st) \<lparr>ttl = t * 1000\<rparr>)
   \<and> (new_IronSession ext rq rs so = Inr s \<longrightarrow>
        sealOptions (store s)
          = \<lparr>ttl = (case Option.bind so opt_ttl of Some t \<Rightarrow> t | None \<Rightarrow> 2592000) * 1000\<rparr>)"
proof (intro conjI impI)
  assume a: "new_IronStore password t = Inr st"
  then show "sealOptions st = \<lparr>ttl = t * 1000\<rparr>" by (rule new_IronStore_sealOptions)
  from a have "unsealed st = []"
    by (auto simp: new_IronStore_def split: sum.splits)
  then show "IronStore_seal ext st = Iron_seal ext [] (sealPassword st) \<lparr>ttl = t * 1000\<rparr>"
    using new_IronStore_sealOptions [OF a] by (simp add: IronStore_seal_def)
next
  assume "new_IronSession ext rq rs so = Inr s"
  from new_IronSession_fields(5) [OF this] obtain password where
    "new_IronStore password
       (case Option.bind so opt_ttl of Some t \<Rightarrow> t | None \<Rightarrow> DEFAULT_TTL) = Inr (store s)"
    by blast
  from new_IronStore_sealOptions [OF this]
  show "sealOptions (store s)
          = \<lparr>ttl = (case Option.bind so opt_ttl of Some t \<Rightarrow> t | None \<Rightarrow> 2592000) * 1000\<rparr>"
    by (simp add: DEFAULT_TTL_def split: option.splits)
qed

theorem seal_ttl_is_ttl_times_1000_witness:
  "new_IronStore (PwString ''secret'') 60
     = Inr (\<lparr>unsealed = [], sealPassword = \<lparr>pw_id = ''1'', secret = ''secret''\<rparr>,
             unsealPassword = [''1'' \<mapsto> ''secret''], sealOptions = \<lparr>ttl = 60000\<rparr>\<rparr>
            :: string IronStore)
   \<and> sealOptions (\<lparr>unsealed = [], sealPassword = \<lparr>pw_id = ''1'', secret = ''secret''\<rparr>,
             unsealPassword = [''1'' \<mapsto> ''secret''], sealOptions = \<lparr>ttl = 60000\<rparr>\<rparr>
            :: string IronStore) = \<lparr>ttl = 60 * 1000\<rparr>"
  using seal_ttl_is_ttl_times_1000
    [of "PwString ''secret''" 60
        "\<lparr>unsealed = [], sealPassword = \<lparr>pw_id = ''1'', secret = ''secret''\<rparr>,
          unsealPassword = [''1'' \<mapsto> ''secret''], sealOptions = \<lparr>ttl = 60000\<rparr>\<rparr>"
        ref_externals]
  by (simp add: new_IronStore_def normalizeSealPassword_def normalizeUnsealPassword_def)

text \<open>
  A TTL of \<open>2^31\<close> seconds reaches Iron as 2147483648000 milliseconds, more than
  \<open>MAX_TTL\<close> seconds are.
\<close>

theorem seal_ttl_unbounded_counterexample:
  "map_sum id sealOptions
     (new_IronStore (PwString ''secret'') 2147483648 :: js_error + string IronStore)
     = Inr \<lparr>ttl = 2147483648000\<rparr>
   \<and> \<not> (2147483648000 \<le> MAX_TTL * 1000)"
  by (simp add: new_IronStore_def normalizeSealPassword_def normalizeUnsealPassword_def
      MAX_TTL_def)

subsection \<open>Writing the cookie\<close>


lemma writeCookie_too_big:
  assumes "cookie_serialize ext (cookieName s) v
             (if v \<noteq> [] then cookieOptions s else (cookieOptions s)\<lparr>maxAge := Some 0\<rparr>) = Inr c"
    and "4096 < length c"
  shows "writeCookie ext s v = (Inl (cookie_too_big (length c)), s)"
  using assms by (simp add: writeCookie_def MAX_COOKIE_SIZE_def Let_def)

lemma writeCookie_throws:
  assumes "cookie_serialize ext (cookieName s) v
             (if v \<noteq> [] then cookieOptions s else (cookieOptions s)\<lparr>maxAge := Some 0\<rparr>) = Inl e"
  shows "writeCookie ext s v = (Inl e, s)"
  using assms by (simp add: writeCookie_def Let_def)

lemma writeCookie_result:
  "writeCookie ext s v = (r, s') \<Longrightarrow>
     (\<exists>e. r = Inl e \<and> s' = s)
     \<or> (\<exists>c. r = Inr ()
            \<and> cookie_serialize ext (cookieName s) v
                 (if v \<noteq> [] then cookieOptions s else (cookieOptions s)\<lparr>maxAge := Some 0\<rparr>) = Inr c
            \<and> length c \<le> 4096
            \<and> s' = s\<lparr>res := setResponseCookie (res s) c\<rparr>)"
  by (auto simp: writeCookie_def MAX_COOKIE_SIZE_def Let_def split: sum.splits if_splits)

lemma setResponseCookie_header:
  "getHeader (setResponseCookie r c) ''set-cookie'' = Some (HArray (existingSetCookies r @ [c]))"
  by (simp add: setResponseCookie_def setHeader_def getHeader_def)

lemma setResponseCookie_other:
  "name \<noteq> ''set-cookie'' \<Longrightarrow> getHeader (setResponseCookie r c) name = getHeader r name"
  by (simp add: setResponseCookie_def setHeader_def getHeader_def)

lemma existingSetCookies_values:
  "getHeader r ''set-cookie'' \<noteq> Some (HString []) \<Longrightarrow>
   getHeader r ''set-cookie'' \<noteq> Some (HNumber 0) \<Longrightarrow>
   existingSetCookies r = header_values (getHeader r ''set-cookie'')"
  by (auto simp: existingSetCookies_def header_values_def split: option.splits header_value.splits)


lemma ref_mac_secret32_length: "length (ref_mac secret32 body) = 102 + length body"
  by (simp add: ref_mac_def secret32_def)




text \<open>
  C6. When the token seals and the serialized cookie (name, token and attributes) is
  longer than 4096, \<open>save\<close> throws, and the session it leaves is the one it started
  from: the response and its \<open>Set-Cookie\<close> header are unchanged.
\<close>

theorem save_too_big_fails:
  assumes "IronStore_seal ext (store s) = Inr sealed"
    and "cookie_serialize ext (cookieName s) sealed
           (if sealed \<noteq> [] then cookieOptions s else (cookieOptions s)\<lparr>maxAge := Some 0\<rparr>) = Inr c"
    and "4096 < length c"
  shows "save ext s = (Inl (cookie_too_big (length c)), s)
         \<and> res (snd (save ext s)) = res s
         \<and> getHeader (res (snd (save ext s))) ''set-cookie'' = getHeader (res s) ''set-cookie''"
  using assms writeCookie_too_big [of ext s sealed c] by (simp add: save_def)

theorem save_too_big_fails_witness:
  "save ref_externals
     (sample_session [(''k'', replicate 5000 CHR ''a'')] \<lparr>cookies = None, header_cookie = None\<rparr>
        \<lparr>headers = [''set-cookie'' \<mapsto> HArray [''lang=en'']]\<rparr>)
     = (Inl (JsError (Some ''IronSession cookie length is too big: 10152'')),
        sample_session [(''k'', replicate 5000 CHR ''a'')] \<lparr>cookies = None, header_cookie = None\<rparr>
          \<lparr>headers = [''set-cookie'' \<mapsto> HArray [''lang=en'']]\<rparr>)
   \<and> getHeader
        (res (snd (save ref_externals
           (sample_session [(''k'', replicate 5000 CHR ''a'')]
              \<lparr>cookies = None, header_cookie = None\<rparr>
              \<lparr>headers = [''set-cookie'' \<mapsto> HArray [''lang=en'']]\<rparr>))))
        ''set-cookie''
       = Some (HArray [''lang=en''])"
proof -
  let ?s = "sample_session [(''k'', replicate 5000 CHR ''a'')]
              \<lparr>cookies = None, header_cookie = None\<rparr>
              \<lparr>headers = [''set-cookie'' \<mapsto> HArray [''lang=en'']]\<rparr>"
  let ?body = "''k:'' @ replicate 5000 CHR ''a'' @ '',''"
  let ?sealed = "''Fe26.2*1*'' @ ?body @ ''*'' @ ref_mac secret32 ?body"
  let ?c = "''sid='' @ ?sealed @ ''; Max-Age=40; Path=/; HttpOnly''"
  have h1: "IronStore_seal ref_externals (store ?s) = Inr ?sealed"
    by (simp add: sample_session_def IronStore_seal_def ref_externals_def ref_seal_def
        ref_plain_def word_chars_def ref_encode_def secret32_def)
  have h2: "cookie_serialize ref_externals (cookieName ?s) ?sealed
              (if ?sealed \<noteq> [] then cookieOptions ?s
               else (cookieOptions ?s)\<lparr>maxAge := Some 0\<rparr>) = Inr ?c"
    by (simp add: sample_session_def ref_externals_def ref_serialize_def js_String_def)
  have len: "length ?c = 10152"
    by (simp add: ref_mac_secret32_length)
  then have h3: "4096 < length ?c" by simp
  have msg: "cookie_too_big 10152 = JsError (Some ''IronSession cookie length is too big: 10152'')"
    by (simp add: cookie_too_big_def)
  from save_too_big_fails [OF h1 h2 h3] len msg show ?thesis
    by (simp add: sample_session_def getHeader_def)
qed




lemma save_result:
  "save ext s = (r, s') \<Longrightarrow>
     (\<exists>e. r = Inl e \<and> s' = s) \<or> (\<exists>c. r = Inr () \<and> s' = s\<lparr>res := setResponseCookie (res s) c\<rparr>)"
  by (auto simp: save_def split: sum.splits dest: writeCookie_result)

text \<open>
  C9. \<open>setResponseCookie\<close> sets the \<open>Set-Cookie\<close> header to an array: the values the
  header held, in their order and as strings, followed by the new cookie. The one
  exception is a header that holds the empty string or the number 0: it counts as no
  header, and the array is the new cookie alone. No other header changes. A \<open>save\<close>
  or \<open>destroy\<close> that returns has changed the response by one such call.
\<close>

theorem set_cookie_appends:
  "(getHeader r ''set-cookie'' \<noteq> Some (HString []) \<and> getHeader r ''set-cookie'' \<noteq> Some (HNumber 0) \<longrightarrow>
      getHeader (setResponseCookie r c) ''set-cookie''
        = Some (HArray (header_values (getHeader r ''set-cookie'') @ [c])))
   \<and> (getHeader r ''set-cookie'' = Some (HString []) \<or> getHeader r ''set-cookie'' = Some (HNumber 0) \<longrightarrow>
        getHeader (setResponseCookie r c) ''set-cookie'' = Some (HArray [c]))
   \<and> (\<forall>name. name \<noteq> ''set-cookie'' \<longrightarrow> getHeader (setResponseCookie r c) name = getHeader r name)
   \<and> (fst (save ext s) = Inr () \<longrightarrow>
        (\<exists>c'. snd (save ext s) = s\<lparr>res := setResponseCookie (res s) c'\<rparr>))
   \<and> (fst (destroy ext s) = Inr () \<longrightarrow>
        (\<exists>c'. snd (destroy ext s)
                = s\<lparr>store := IronStore_clear (store s), res := setResponseCookie (res s) c'\<rparr>))"
proof -
  have a1: "getHeader r ''set-cookie'' \<noteq> Some (HString []) \<and> getHeader r ''set-cookie'' \<noteq> Some (HNumber 0) \<longrightarrow>
      getHeader (setResponseCookie r c) ''set-cookie''
        = Some (HArray (header_values (getHeader r ''set-cookie'') @ [c]))"
    using existingSetCookies_values [of r] by (simp add: setResponseCookie_header)
  have a2: "getHeader r ''set-cookie'' = Some (HString []) \<or> getHeader r ''set-cookie'' = Some (HNumber 0) \<longrightarrow>
        getHeader (setResponseCookie r c) ''set-cookie'' = Some (HArray [c])"
    by (auto simp: setResponseCookie_header existingSetCookies_def)
  have a3: "\<forall>name. name \<noteq> ''set-cookie'' \<longrightarrow> getHeader (setResponseCookie r c) name = getHeader r name"
    by (simp add: setResponseCookie_other)
  have a4: "fst (save ext s) = Inr () \<longrightarrow>
        (\<exists>c'. snd (save ext s) = s\<lparr>res := setResponseCookie (res s) c'\<rparr>)"
  proof
    assume h: "fst (save ext s) = Inr ()"
    obtain r' s' where e: "save ext s = (r', s')" by (cases "save ext s")
    from save_result [OF e] h e
    show "\<exists>c'. snd (save ext s) = s\<lparr>res := setResponseCookie (res s) c'\<rparr>" by auto
  qed
  have a5: "fst (destroy ext s) = Inr () \<longrightarrow>
        (\<exists>c'. snd (destroy ext s)
                = s\<lparr>store := IronStore_clear (store s), res := setResponseCookie (res s) c'\<rparr>)"
  proof
    assume h: "fst (destroy ext s) = Inr ()"
    let ?s1 = "s\<lparr>store := IronStore_clear (store s)\<rparr>"
    obtain r' s' where e: "writeCookie ext ?s1 [] = (r', s')" by (cases "writeCookie ext ?s1 []")
    from writeCookie_result [OF e] h e
    show "\<exists>c'. snd (destroy ext s)
                = s\<lparr>store := IronStore_clear (store s), res := setResponseCookie (res s) c'\<rparr>"
      by (auto simp: destroy_def)
  qed
  from a1 a2 a3 a4 a5 show ?thesis by blast
qed

theorem set_cookie_appends_witness:
  "getHeader
     (setResponseCookie \<lparr>headers = [''set-cookie'' \<mapsto> HString ''lang=en'']\<rparr> ''sid=abc'')
     ''set-cookie''
     = Some (HArray [''lang=en'', ''sid=abc''])
   \<and> getHeader
       (setResponseCookie \<lparr>headers = [''set-cookie'' \<mapsto> HArray [''a=1'', ''b=2'']]\<rparr> ''sid=abc'')
       ''set-cookie''
       = Some (HArray [''a=1'', ''b=2'', ''sid=abc''])"
  using set_cookie_appends
          [of "\<lparr>headers = [''set-cookie'' \<mapsto> HString ''lang=en'']\<rparr>" "''sid=abc''"
              ref_externals "sample_session [] \<lparr>cookies = None, header_cookie = None\<rparr>
                               \<lparr>headers = Map.empty\<rparr>"]
        set_cookie_appends
          [of "\<lparr>headers = [''set-cookie'' \<mapsto> HArray [''a=1'', ''b=2'']]\<rparr>" "''sid=abc''"
              ref_externals "sample_session [] \<lparr>cookies = None, header_cookie = None\<rparr>
                               \<lparr>headers = Map.empty\<rparr>"]
  by (simp add: getHeader_def header_values_def)

text \<open>
  A response whose \<open>Set-Cookie\<close> header is the empty string holds one value, the
  empty string; after \<open>destroy\<close> the header holds the session cookie only.
\<close>

theorem set_cookie_empty_header_counterexample:
  "header_values (getHeader \<lparr>headers = [''set-cookie'' \<mapsto> HString '''']\<rparr> ''set-cookie'') = ['''']
   \<and> destroy ref_externals
        (sample_session [] \<lparr>cookies = None, header_cookie = None\<rparr>
           \<lparr>headers = [''set-cookie'' \<mapsto> HString '''']\<rparr>)
       = (Inr (),
          sample_session [] \<lparr>cookies = None, header_cookie = None\<rparr>
            \<lparr>headers = [''set-cookie'' \<mapsto> HArray [''sid=; Max-Age=0; Path=/; HttpOnly'']]\<rparr>)
   \<and> '''' \<notin> set [''sid=; Max-Age=0; Path=/; HttpOnly'']"
  by (simp add: header_values_def getHeader_def destroy_def writeCookie_def sample_session_def
      IronStore_clear_def ref_externals_def ref_serialize_def js_String_def MAX_COOKIE_SIZE_def
      setResponseCookie_def setHeader_def existingSetCookies_def Let_def)

subsection \<open>Reading the cookie\<close>

lemma getRequestCookie_parsed:
  "cookies rq = Some parsed \<Longrightarrow> getRequestCookie ext rq name = parsed name"
  by (simp add: getRequestCookie_def)

lemma getRequestCookie_raw:
  "cookies rq = None \<Longrightarrow>
   getRequestCookie ext rq name
     = cookie_parse ext (case header_cookie rq of None \<Rightarrow> [] | Some h \<Rightarrow> h) name"
  by (simp add: getRequestCookie_def split: option.splits)

lemma getRequestCookie_unseal_irrelevant:
  "getRequestCookie (ext\<lparr>Iron_unseal := u\<rparr>) rq name = getRequestCookie ext rq name"
  by (simp add: getRequestCookie_def split: option.splits)

lemma new_IronStore_unsealed:
  "new_IronStore password t = Inr st \<Longrightarrow> unsealed st = []"
  by (auto simp: new_IronStore_def split: sum.splits)

lemma restore_absent:
  "getRequestCookie ext (req s) (cookieName s) = None \<Longrightarrow> restore ext s = (Inr False, s)"
  by (simp add: restore_def readCookie_def)

lemma restore_blank_value:
  "getRequestCookie ext (req s) (cookieName s) = Some [] \<Longrightarrow> restore ext s = (Inr False, s)"
  by (simp add: restore_def readCookie_def)

lemma restore_present:
  "getRequestCookie ext (req s) (cookieName s) = Some sealed \<Longrightarrow> sealed \<noteq> [] \<Longrightarrow>
   restore ext s = (fst (IronStore_unseal ext (store s) sealed),
                    s\<lparr>store := snd (IronStore_unseal ext (store s) sealed)\<rparr>)"
  by (simp add: restore_def readCookie_def split: prod.splits)

text \<open>
  C8. \<open>getRequestCookie\<close> reads the name from the parsed cookies of the request when
  the request has them, whatever \<open>cookie.parse\<close> is, and from the parsed
  \<open>Cookie\<close> header (the empty string when there is none) otherwise. Without a value
  for the name, \<open>restore\<close> returns false and leaves the session as it is, whatever
  \<open>Iron.unseal\<close> is. With a value that is not the empty string, \<open>restore\<close> returns
  what \<open>unseal\<close> returns for that value and keeps the store that \<open>unseal\<close> leaves.
\<close>

theorem restore_reads_then_unseals:
  "(cookies rq = Some parsed \<longrightarrow> getRequestCookie (ext\<lparr>cookie_parse := p\<rparr>) rq name = parsed name)
   \<and> (cookies rq = None \<longrightarrow>
        getRequestCookie ext rq name
          = cookie_parse ext (case header_cookie rq of None \<Rightarrow> [] | Some h \<Rightarrow> h) name)
   \<and> (getRequestCookie ext (req s) (cookieName s) = None \<longrightarrow>
        restore (ext\<lparr>Iron_unseal := u\<rparr>) s = (Inr False, s))
   \<and> (\<forall>sealed. getRequestCookie ext (req s) (cookieName s) = Some sealed \<and> sealed \<noteq> [] \<longrightarrow>
        restore ext s = (fst (IronStore_unseal ext (store s) sealed),
                         s\<lparr>store := snd (IronStore_unseal ext (store s) sealed)\<rparr>))"
proof (intro conjI impI allI)
  assume "cookies rq = Some parsed"
  then show "getRequestCookie (ext\<lparr>cookie_parse := p\<rparr>) rq name = parsed name"
    by (rule getRequestCookie_parsed)
next
  assume "cookies rq = None"
  then show "getRequestCookie ext rq name
          = cookie_parse ext (case header_cookie rq of None \<Rightarrow> [] | Some h \<Rightarrow> h) name"
    by (rule getRequestCookie_raw)
next
  assume "getRequestCookie ext (req s) (cookieName s) = None"
  then have "getRequestCookie (ext\<lparr>Iron_unseal := u\<rparr>) (req s) (cookieName s) = None"
    by (simp add: getRequestCookie_unseal_irrelevant)
  then show "restore (ext\<lparr>Iron_unseal := u\<rparr>) s = (Inr False, s)"
    by (rule restore_absent)
next
  fix sealed
  assume "getRequestCookie ext (req s) (cookieName s) = Some sealed \<and> sealed \<noteq> []"
  then show "restore ext s = (fst (IronStore_unseal ext (store s) sealed),
                         s\<lparr>store := snd (IronStore_unseal ext (store s) sealed)\<rparr>)"
    using restore_present by blast
qed

theorem restore_reads_then_unseals_witness:
  "restore ref_externals
     (sample_session [] \<lparr>cookies = Some [''sid'' \<mapsto> sample_token], header_cookie = None\<rparr>
        \<lparr>headers = Map.empty\<rparr>)
     = (Inr True,
        sample_session [(''user'', ''ann'')]
          \<lparr>cookies = Some [''sid'' \<mapsto> sample_token], header_cookie = None\<rparr>
          \<lparr>headers = Map.empty\<rparr>)
   \<and> restore ref_externals
       (sample_session [] \<lparr>cookies = None, header_cookie = Some ''lang=en; theme=dark''\<rparr>
          \<lparr>headers = Map.empty\<rparr>)
       = (Inr False,
          sample_session [] \<lparr>cookies = None, header_cookie = Some ''lang=en; theme=dark''\<rparr>
            \<lparr>headers = Map.empty\<rparr>)"
proof -
  let ?s1 = "sample_session [] \<lparr>cookies = Some [''sid'' \<mapsto> sample_token], header_cookie = None\<rparr>
               \<lparr>headers = Map.empty\<rparr>"
  let ?s2 = "sample_session [] \<lparr>cookies = None, header_cookie = Some ''lang=en; theme=dark''\<rparr>
               \<lparr>headers = Map.empty\<rparr>"
  have g1: "getRequestCookie ref_externals (req ?s1) (cookieName ?s1) = Some sample_token
            \<and> sample_token \<noteq> []"
    by (simp add: getRequestCookie_def sample_session_def sample_token_def)
  have u1: "IronStore_unseal ref_externals (store ?s1) sample_token
              = (Inr True, (store ?s1)\<lparr>unsealed := [(''user'', ''ann'')]\<rparr>)"
    by (simp add: IronStore_unseal_def ref_externals_def ref_unseal_def Let_def property_of_def ref_mac_def
        ref_decode_def sample_session_def sample_token_def secret32_def)
  have g2: "getRequestCookie ref_externals (req ?s2) (cookieName ?s2) = None"
    by (simp add: getRequestCookie_def sample_session_def ref_externals_def ref_parse_def)
  have r1: "restore ref_externals ?s1
              = (fst (IronStore_unseal ref_externals (store ?s1) sample_token),
                 ?s1\<lparr>store := snd (IronStore_unseal ref_externals (store ?s1) sample_token)\<rparr>)"
    using restore_reads_then_unseals [where ext = ref_externals and s = ?s1] g1 by blast
  have r2: "restore (ref_externals\<lparr>Iron_unseal := ref_unseal\<rparr>) ?s2 = (Inr False, ?s2)"
    using restore_reads_then_unseals [where ext = ref_externals and s = ?s2 and u = ref_unseal]
      g2 by blast
  have same: "ref_externals\<lparr>Iron_unseal := ref_unseal\<rparr> = ref_externals"
    by (simp add: ref_externals_def)
  from r1 u1 r2 same show ?thesis
    by (simp add: sample_session_def)
qed

text \<open>
  With the empty string as the cookie's value, \<open>restore\<close> returns false, while
  \<open>unseal\<close> of that value throws: the reference primitive, like Iron, rejects a token
  that does not have its number of components.
\<close>

theorem restore_empty_cookie_counterexample:
  "getRequestCookie ref_externals
     \<lparr>cookies = Some [''sid'' \<mapsto> ''''], header_cookie = None\<rparr> ''sid'' = Some ''''
   \<and> fst (restore ref_externals
            (sample_session [] \<lparr>cookies = Some [''sid'' \<mapsto> ''''], header_cookie = None\<rparr>
               \<lparr>headers = Map.empty\<rparr>))
       = Inr False
   \<and> fst (IronStore_unseal ref_externals
            (store (sample_session []
                      \<lparr>cookies = Some [''sid'' \<mapsto> ''''], header_cookie = None\<rparr>
                      \<lparr>headers = Map.empty\<rparr>)) '''')
       = Inl (JsError (Some ''Incorrect number of sealed components''))"
  by (simp add: getRequestCookie_def restore_def readCookie_def sample_session_def
      IronStore_unseal_def ref_externals_def ref_unseal_def Let_def property_of_def startsWith_def)

text \<open>
  C10. When the cookie is present with the empty string as its value, \<open>restore\<close>
  returns false and leaves the session, and so the bag, as it is, whatever
  \<open>Iron.unseal\<close> is; the result is that of a session whose request has no such
  cookie. For a session fresh from the constructor, \<open>getIronSession\<close> returns that
  session with its empty bag.
\<close>

theorem restore_empty_cookie_is_absent:
  "getRequestCookie ext (req s) (cookieName s) = Some [] \<Longrightarrow>
     restore (ext\<lparr>Iron_unseal := u\<rparr>) s = (Inr False, s)
     \<and> unsealed (store (snd (restore ext s))) = unsealed (store s)
     \<and> (getRequestCookie ext (req s') (cookieName s') = None \<longrightarrow>
          fst (restore ext s') = fst (restore ext s))
     \<and> (new_IronSession ext (req s) (res s) so = Inr s \<longrightarrow>
          getIronSession ext (req s) (res s) so = Inr s \<and> unsealed (store s) = [])"
proof (intro conjI impI)
  assume a: "getRequestCookie ext (req s) (cookieName s) = Some []"
  then have "getRequestCookie (ext\<lparr>Iron_unseal := u\<rparr>) (req s) (cookieName s) = Some []"
    by (simp add: getRequestCookie_unseal_irrelevant)
  then show "restore (ext\<lparr>Iron_unseal := u\<rparr>) s = (Inr False, s)"
    by (rule restore_blank_value)
  from restore_blank_value [OF a]
  show "unsealed (store (snd (restore ext s))) = unsealed (store s)" by simp
  {
    assume "getRequestCookie ext (req s') (cookieName s') = None"
    from restore_absent [OF this] restore_blank_value [OF a]
    show "fst (restore ext s') = fst (restore ext s)" by simp
  }
  {
    assume n: "new_IronSession ext (req s) (res s) so = Inr s"
    with restore_blank_value [OF a]
    show "getIronSession ext (req s) (res s) so = Inr s"
      by (simp add: getIronSession_def)
    from new_IronSession_fields(5) [OF n] show "unsealed (store s) = []"
      using new_IronStore_unsealed by blast
  }
qed

theorem restore_empty_cookie_is_absent_witness:
  "getRequestCookie ref_externals
     \<lparr>cookies = None, header_cookie = Some ''lang=en; sid=''\<rparr> ''sid'' = Some ''''
   \<and> restore ref_externals
       (sample_session [] \<lparr>cookies = None, header_cookie = Some ''lang=en; sid=''\<rparr>
          \<lparr>headers = Map.empty\<rparr>)
       = (Inr False,
          sample_session [] \<lparr>cookies = None, header_cookie = Some ''lang=en; sid=''\<rparr>
            \<lparr>headers = Map.empty\<rparr>)"
proof -
  let ?s = "sample_session [] \<lparr>cookies = None, header_cookie = Some ''lang=en; sid=''\<rparr>
              \<lparr>headers = Map.empty\<rparr>"
  have g: "getRequestCookie ref_externals (req ?s) (cookieName ?s) = Some []"
    by (simp add: getRequestCookie_def sample_session_def ref_externals_def ref_parse_def)
  have same: "ref_externals\<lparr>Iron_unseal := ref_unseal\<rparr> = ref_externals"
    by (simp add: ref_externals_def)
  from restore_empty_cookie_is_absent [OF g, where u = ref_unseal] g same
  show ?thesis by (simp add: sample_session_def)
qed

subsection \<open>Unsealing\<close>









subsection \<open>The reference primitive\<close>

text \<open>
  The reference primitive does what is asked of Iron, for every bag, seal password,
  hash and options: a token it has sealed splits into its four components, the mac
  checks under the sealing secret, and the body decodes to the bag.
\<close>

lemma split_on_absent: "c \<notin> set xs \<Longrightarrow> split_on c xs = [xs]"
  by (induction xs) auto

lemma split_on_first:
  "c \<notin> set xs \<Longrightarrow> split_on c (xs @ c # ys) = xs # split_on c ys"
  by (induction xs) auto

lemma string_of_nat_digits: "set (string_of_nat n) \<subseteq> set ''0123456789''"
proof (induction n rule: string_of_nat.induct)
  case (1 n)
  have d: "\<And>k. k < 10 \<Longrightarrow> ''0123456789'' ! k \<in> set ''0123456789''"
    by (rule nth_mem) simp
  show ?case
  proof (cases "n < 10")
    case True
    then show ?thesis using d [of n]
      by (subst string_of_nat.simps) (simp del: string_of_nat.simps)
  next
    case False
    have "n mod 10 < 10" by simp
    with False 1 d [of "n mod 10"] show ?thesis
      by (subst string_of_nat.simps) (simp del: string_of_nat.simps)
  qed
qed

lemma ref_mac_star: "CHR ''*'' \<notin> set body \<Longrightarrow> CHR ''*'' \<notin> set (ref_mac key body)"
proof -
  assume b: "CHR ''*'' \<notin> set body"
  have "\<And>n. CHR ''*'' \<notin> set (string_of_nat n)"
  proof
    fix n assume "CHR ''*'' \<in> set (string_of_nat n)"
    with string_of_nat_digits [of n] have "CHR ''*'' \<in> set ''0123456789''" by blast
    then show False by simp
  qed
  with b show ?thesis
    by (auto simp: ref_mac_def simp del: string_of_nat.simps)
qed

lemma ref_encode_Cons:
  "ref_encode ((k, v) # obj) = (k @ '':'' @ v) @ CHR '','' # ref_encode obj"
  by (simp add: ref_encode_def)

lemma ref_encode_star:
  "list_all (\<lambda>(k, v). k \<noteq> [] \<and> ref_plain k \<and> ref_plain v) obj \<Longrightarrow>
   CHR ''*'' \<notin> set (ref_encode obj)"
proof (induction obj)
  case Nil
  show ?case by (simp add: ref_encode_def)
next
  case (Cons p obj)
  obtain k v where p: "p = (k, v)" by (cases p)
  from Cons.prems p have "CHR ''*'' \<notin> set k" "CHR ''*'' \<notin> set v"
    and rest: "list_all (\<lambda>(k, v). k \<noteq> [] \<and> ref_plain k \<and> ref_plain v) obj"
    by (simp_all add: ref_plain_def)
  with Cons.IH [OF rest] show ?case
    unfolding p ref_encode_Cons by simp
qed

lemma takeWhile_before: "c \<notin> set xs \<Longrightarrow> takeWhile (\<lambda>x. x \<noteq> c) (xs @ c # ys) = xs"
  by (induction xs) auto

lemma dropWhile_before: "c \<notin> set xs \<Longrightarrow> dropWhile (\<lambda>x. x \<noteq> c) (xs @ c # ys) = c # ys"
  by (induction xs) auto

lemma ref_decode_encode:
  "list_all (\<lambda>(k, v). k \<noteq> [] \<and> ref_plain k \<and> ref_plain v) obj \<Longrightarrow>
   ref_decode (ref_encode obj) = obj"
proof (induction obj)
  case Nil
  then show ?case by (simp add: ref_decode_def ref_encode_def)
next
  case (Cons p obj)
  obtain k v where p: "p = (k, v)" by (cases p)
  from Cons.prems p have kv: "k \<noteq> []" "ref_plain k" "ref_plain v"
    and rest: "list_all (\<lambda>(k, v). k \<noteq> [] \<and> ref_plain k \<and> ref_plain v) obj"
    by auto
  have e: "ref_encode (p # obj) = (k @ '':'' @ v) @ CHR '','' # ref_encode obj"
    unfolding p by (rule ref_encode_Cons)
  have c: "CHR '','' \<notin> set (k @ '':'' @ v)"
    using kv by (simp add: ref_plain_def)
  have s: "split_on CHR '','' (ref_encode (p # obj))
             = (k @ '':'' @ v) # split_on CHR '','' (ref_encode obj)"
    unfolding e by (rule split_on_first [OF c])
  have t: "takeWhile (\<lambda>c. c \<noteq> CHR '':'') (k @ '':'' @ v) = k"
    using kv takeWhile_before [of "CHR '':''" k v] by (simp add: ref_plain_def)
  have d: "dropWhile (\<lambda>c. c \<noteq> CHR '':'') (k @ '':'' @ v) = '':'' @ v"
    using kv dropWhile_before [of "CHR '':''" k v] by (simp add: ref_plain_def)
  from Cons.IH [OF rest] s t d show ?case
    by (simp add: ref_decode_def p)
qed

lemma word_chars_star:
  assumes "list_all (\<lambda>c. c \<in> set word_chars) s"
  shows "CHR ''*'' \<notin> set s"
proof -
  have "CHR ''*'' \<notin> set word_chars" by (simp add: word_chars_def)
  with assms show ?thesis unfolding list_all_iff by blast
qed

lemma ref_externals_roundtrip: "iron_roundtrip ref_externals B sp up opts"
proof (cases "ref_seal B sp opts")
  case (Inl e)
  then show ?thesis by (simp add: iron_roundtrip_def ref_externals_def)
next
  case (Inr sealed)
  then have ok: "list_all (\<lambda>c. c \<in> set word_chars) (pw_id sp)"
      "list_all (\<lambda>(k, v). k \<noteq> [] \<and> ref_plain k \<and> ref_plain v) B"
    and named: "pw_id sp \<noteq> []" and long: "\<not> length (secret sp) < 32"
    and tok: "sealed = ''Fe26.2'' @ CHR ''*'' # pw_id sp @ CHR ''*'' # ref_encode B
                @ CHR ''*'' # ref_mac (secret sp) (ref_encode B)"
    by (auto simp: ref_seal_def split: if_splits)
  have s1: "CHR ''*'' \<notin> set ''Fe26.2''" by simp
  have s2: "CHR ''*'' \<notin> set (pw_id sp)" using ok(1) by (rule word_chars_star)
  have s3: "CHR ''*'' \<notin> set (ref_encode B)" using ok(2) by (rule ref_encode_star)
  have s4: "CHR ''*'' \<notin> set (ref_mac (secret sp) (ref_encode B))"
    using s3 by (rule ref_mac_star)
  have parts: "split_on CHR ''*'' sealed
                 = [''Fe26.2'', pw_id sp, ref_encode B, ref_mac (secret sp) (ref_encode B)]"
    unfolding tok
    by (simp only: split_on_first [OF s1] split_on_first [OF s2] split_on_first [OF s3]
        split_on_absent [OF s4])
  from long have filled: "secret sp \<noteq> []" by auto
  show ?thesis
    using Inr parts ref_decode_encode [OF ok(2)] named long filled
    by (simp add: iron_roundtrip_def ref_externals_def ref_unseal_def Let_def property_of_def)
qed

subsection \<open>Sealing and unsealing\<close>

lemma find_Some_holds: "find P xs = Some x \<Longrightarrow> P x \<and> x \<in> set xs"
  by (induction xs) (auto split: if_splits)

lemma seal_key_listed_compatible:
  assumes "seal_key_listed password"
  shows "\<exists>sp up. normalizeSealPassword password = Inr sp
           \<and> normalizeUnsealPassword password = Inr up
           \<and> up (pw_id sp) = Some (secret sp)"
proof (cases password)
  case (PwString s)
  with assms show ?thesis
    by (simp add: normalizeSealPassword_def normalizeUnsealPassword_def)
next
  case (PwList es)
  with assms obtain e es' where es: "es = e # es'"
    by (cases es) auto
  from assms PwList es have proto: "pw_id e \<noteq> ''__proto__''"
    and rest: "\<forall>x \<in> set es'. pw_id x = pw_id e \<longrightarrow> secret x = secret e"
    by (auto simp: list_all_iff)
  have "normalize_loop (e # es') Map.empty (pw_id e) = Some (secret e)"
  proof (cases "find (\<lambda>x. pw_id x = pw_id e) (rev es')")
    case None
    then show ?thesis
      using normalize_loop_last [OF proto, of "e # es'" Map.empty]
      by (simp add: find_append_case)
  next
    case (Some x)
    from find_Some_holds [OF Some] rest have "secret x = secret e" by auto
    with Some show ?thesis
      using normalize_loop_last [OF proto, of "e # es'" Map.empty]
      by (simp add: find_append_case)
  qed
  with PwList es show ?thesis
    by (simp add: normalizeSealPassword_def normalizeUnsealPassword_def)
qed

text \<open>
  C2. Let the password name its own sealing key: a non-empty secret string, or a
  non-empty list whose first id is not \<open>__proto__\<close> and in which an element that
  repeats the first id repeats the first secret. Then the unseal form holds the secret
  of the seal form under the id of the seal form (for a secret string, under the key
  \<open>"1"\<close>). If moreover Iron seals the bag \<open>B\<close> under the seal form and unseals its
  own token under a hash that holds the sealing secret under the sealing id, then
  sealing \<open>B\<close> and unsealing the token on a store made from the same password returns
  true and leaves the bag \<open>B\<close>.
\<close>

theorem seal_unseal_roundtrip:
  fixes ext :: "'v externals"
  assumes "seal_key_listed password"
    and "normalizeSealPassword password = Inr sp"
    and "normalizeUnsealPassword password = Inr up"
    and "Iron_seal ext B sp \<lparr>ttl = t * 1000\<rparr> = Inr sealed"
    and "iron_roundtrip ext B sp up \<lparr>ttl = t * 1000\<rparr>"
  shows "up (pw_id sp) = Some (secret sp) \<and> seal_then_unseal ext password t B = Inr (True, B)"
proof -
  from seal_key_listed_compatible [OF assms(1)] assms(2,3)
  have c: "up (pw_id sp) = Some (secret sp)" by simp
  with assms(4,5) have u: "Iron_unseal ext sealed up \<lparr>ttl = t * 1000\<rparr> = Inr B"
    by (simp add: iron_roundtrip_def)
  have n: "new_IronStore password t
             = Inr (\<lparr>unsealed = [], sealPassword = sp, unsealPassword = up,
                     sealOptions = \<lparr>ttl = t * 1000\<rparr>\<rparr> :: 'v IronStore)"
    using assms(2,3) by (simp add: new_IronStore_def)
  have "seal_then_unseal ext password t B = Inr (True, B)"
    using n assms(4) u
    by (simp add: seal_then_unseal_def IronStore_seal_def IronStore_unseal_def)
  with c show ?thesis by simp
qed

theorem seal_unseal_roundtrip_witness:
  "seal_then_unseal ref_externals
     (PwList [\<lparr>pw_id = ''2'', secret = secret32\<rparr>,
              \<lparr>pw_id = ''1'', secret = ''ffffffffffffffffffffffffffffffff''\<rparr>])
     100 [(''user'', ''ann'')]
     = Inr (True, [(''user'', ''ann'')])
   \<and> seal_then_unseal ref_externals (PwString secret32) 100 [(''user'', ''ann'')]
       = Inr (True, [(''user'', ''ann'')])"
proof -
  let ?pw = "PwList [\<lparr>pw_id = ''2'', secret = secret32\<rparr>,
                     \<lparr>pw_id = ''1'', secret = ''ffffffffffffffffffffffffffffffff''\<rparr>]"
  let ?up = "[''2'' \<mapsto> secret32, ''1'' \<mapsto> ''ffffffffffffffffffffffffffffffff'']"
  have a1: "seal_key_listed ?pw" by simp
  have a2: "normalizeSealPassword ?pw = Inr \<lparr>pw_id = ''2'', secret = secret32\<rparr>"
    by (simp add: normalizeSealPassword_def)
  have a3: "normalizeUnsealPassword ?pw = Inr ?up"
    by (simp add: normalizeUnsealPassword_def js_assign_def)
  have a4: "Iron_seal ref_externals [(''user'', ''ann'')] \<lparr>pw_id = ''2'', secret = secret32\<rparr>
              \<lparr>ttl = 100 * 1000\<rparr> = Inr retired_token"
    by (simp add: ref_externals_def ref_seal_def ref_plain_def ref_encode_def ref_mac_def
        word_chars_def secret32_def retired_token_def)
  have a5: "iron_roundtrip ref_externals [(''user'', ''ann'')] \<lparr>pw_id = ''2'', secret = secret32\<rparr>
              ?up \<lparr>ttl = 100 * 1000\<rparr>"
    using a4
    by (simp add: iron_roundtrip_def)
       (simp add: ref_externals_def ref_unseal_def Let_def property_of_def ref_mac_def ref_decode_def
          secret32_def retired_token_def)
  let ?up1 = "[''1'' \<mapsto> secret32]"
  have b1: "seal_key_listed (PwString secret32)" by (simp add: secret32_def)
  have b2: "normalizeSealPassword (PwString secret32) = Inr \<lparr>pw_id = ''1'', secret = secret32\<rparr>"
    by (simp add: normalizeSealPassword_def secret32_def)
  have b3: "normalizeUnsealPassword (PwString secret32) = Inr ?up1"
    by (simp add: normalizeUnsealPassword_def secret32_def)
  have b4: "Iron_seal ref_externals [(''user'', ''ann'')] \<lparr>pw_id = ''1'', secret = secret32\<rparr>
              \<lparr>ttl = 100 * 1000\<rparr> = Inr sample_token"
    by (simp add: ref_externals_def ref_seal_def ref_plain_def ref_encode_def ref_mac_def
        word_chars_def secret32_def sample_token_def)
  have b5: "iron_roundtrip ref_externals [(''user'', ''ann'')] \<lparr>pw_id = ''1'', secret = secret32\<rparr>
              ?up1 \<lparr>ttl = 100 * 1000\<rparr>"
    using b4
    by (simp add: iron_roundtrip_def)
       (simp add: ref_externals_def ref_unseal_def Let_def property_of_def ref_mac_def ref_decode_def
          secret32_def sample_token_def)
  from seal_unseal_roundtrip [OF a1 a2 a3 a4 a5] seal_unseal_roundtrip [OF b1 b2 b3 b4 b5]
  show ?thesis by simp
qed

text \<open>
  With a list that repeats the first id under another secret, the token is sealed with
  the first secret and checked with the second: \<open>unseal\<close> returns false and the bag
  stays empty.
\<close>

theorem roundtrip_duplicate_id_counterexample:
  "seal_then_unseal ref_externals
     (PwList [\<lparr>pw_id = ''a'', secret = secret32\<rparr>,
              \<lparr>pw_id = ''a'', secret = ''ffffffffffffffffffffffffffffffff''\<rparr>])
     100 [(''user'', ''ann'')]
     = Inr (False, [])"
  by (simp add: seal_then_unseal_def new_IronStore_def normalizeSealPassword_def
      normalizeUnsealPassword_def js_assign_def IronStore_seal_def IronStore_unseal_def
      ref_externals_def ref_seal_def ref_unseal_def Let_def property_of_def ref_plain_def ref_encode_def ref_mac_def
      word_chars_def secret32_def startsWith_def)

end
